theory Spec2Isabelle
  imports Main "HOL-Library.AList" "HOL-Library.Word"
begin

section \<open>Python values, exceptions and library functions\<close>

text \<open>
  The four handlers work on JSON-shaped Python values. A \<open>float\<close> is an IEEE binary64
  value, kept as its bit pattern; no arithmetic is done on it. \<open>PDecimal s\<close> stands for
  the object \<open>Decimal(s)\<close>, the decimal built from the literal \<open>s\<close>. A \<open>dict\<close> is an
  association list in insertion order; \<open>map_of\<close> reads a key and \<open>AList.update\<close> stores
  one the way a dict does (in place when the key is there, at the end otherwise).
\<close>

type_synonym pyfloat = "64 word"

datatype pyval =
    PNone
  | PBool bool
  | PInt int
  | PFloat pyfloat
  | PStr string
  | PDecimal string
  | PList "pyval list"
  | PDict "(string \<times> pyval) list"

text \<open>
  Exceptions as values. \<open>TypeError\<close> is what the interpreter raises for an operand of
  the wrong type; it keeps the operation and the operand. \<open>ClientError\<close> stands for the
  failures of the storage and secret collaborators.
\<close>

datatype type_error_op = Not_container | Not_mapping | Not_subscriptable | Not_serializable

datatype exn =
    ValueError string
  | KeyError string
  | TypeError type_error_op pyval
  | JSONDecodeError string
  | ExpiredSignatureError string
  | InvalidTokenError string
  | ClientError string
  | Exception string

text \<open>
  The library functions the handlers call and this repository does not define:
  \<open>str\<close> on a float and on an exception, \<open>json.loads\<close>, the text of \<open>json.dumps(v)\<close>
  and of \<open>json.dumps(v, indent=2, default=str)\<close>.
\<close>

record pylib =
  float_str :: "pyfloat \<Rightarrow> string"
  str_exn :: "exn \<Rightarrow> string"
  json_loads :: "string \<Rightarrow> exn + pyval"
  json_text :: "pyval \<Rightarrow> string"
  json_text_default_str :: "pyval \<Rightarrow> string"

text \<open>\<open>json.dumps(v)\<close> with no \<open>default\<close> raises \<open>TypeError\<close> on a \<open>Decimal\<close>.\<close>

fun json_serializable :: "pyval \<Rightarrow> bool" where
  "json_serializable (PDecimal s) = False"
| "json_serializable (PList xs) = list_all json_serializable xs"
| "json_serializable (PDict kvs) = list_all (\<lambda>(k, v). json_serializable v) kvs"
| "json_serializable obj = True"

definition json_dumps :: "pylib \<Rightarrow> pyval \<Rightarrow> exn + string" where
  "json_dumps L v =
     (if json_serializable v then Inr (json_text L v) else Inl (TypeError Not_serializable v))"

text \<open>\<open>str(n)\<close> for a non-negative integer, as the f-string of the success message uses it.\<close>

fun str_nat :: "nat \<Rightarrow> string" where
  "str_nat n =
     (if n < 10 then [char_of (48 + n)] else str_nat (n div 10) @ [char_of (48 + n mod 10)])"

text \<open>\<open>k in s\<close> for two strings: \<open>k\<close> occurs in \<open>s\<close> as a substring.\<close>

fun str_contains :: "string \<Rightarrow> string \<Rightarrow> bool" where
  "str_contains [] k = (k = [])"
| "str_contains (c # cs) k = (take (length k) (c # cs) = k \<or> str_contains cs k)"

text \<open>
  \<open>k in obj\<close> for a string \<open>k\<close>: key membership in a dict, element membership in a list,
  substring in a string, \<open>TypeError\<close> for a value that is no container.
\<close>

fun py_in :: "string \<Rightarrow> pyval \<Rightarrow> exn + bool" where
  "py_in k (PDict kvs) = Inr (map_of kvs k \<noteq> None)"
| "py_in k (PList xs) = Inr (List.member xs (PStr k))"
| "py_in k (PStr s) = Inr (str_contains s k)"
| "py_in k obj = Inl (TypeError Not_container obj)"

text \<open>\<open>obj[k]\<close> for a string \<open>k\<close>: \<open>KeyError\<close> on a dict without the key, \<open>TypeError\<close> elsewhere.\<close>

fun py_getitem :: "pyval \<Rightarrow> string \<Rightarrow> exn + pyval" where
  "py_getitem (PDict kvs) k = (case map_of kvs k of None \<Rightarrow> Inl (KeyError k) | Some v \<Rightarrow> Inr v)"
| "py_getitem obj k = Inl (TypeError Not_subscriptable obj)"

section \<open>post\_lambda: the order ingestion API\<close>

definition TTL_SECONDS :: int where
  "TTL_SECONDS = 24 * 60 * 60"

fun convert_floats_to_decimal :: "pylib \<Rightarrow> pyval \<Rightarrow> pyval" where
  "convert_floats_to_decimal L (PFloat x) = PDecimal (float_str L x)"
| "convert_floats_to_decimal L (PDict kvs) =
     PDict (map (\<lambda>(k, v). (k, convert_floats_to_decimal L v)) kvs)"
| "convert_floats_to_decimal L (PList xs) = PList (map (convert_floats_to_decimal L) xs)"
| "convert_floats_to_decimal L obj = obj"

text \<open>
  The table and the clock. \<open>time_int n\<close> is what the \<open>n\<close>-th call of \<open>int(time.time())\<close>
  of the execution context returns. The three \<open>raises\<close> fields say whether opening the
  batch writer, a \<open>put_item\<close> (given the items put before it) and the flush on leaving
  the \<open>with\<close> block raise. The state keeps every item handed to \<open>put_item\<close>, in order, and
  the number of clock readings taken.
\<close>

record post_env =
  batch_writer_raises :: "exn option"
  put_item_raises :: "pyval list \<Rightarrow> pyval \<Rightarrow> exn option"
  batch_exit_raises :: "pyval list \<Rightarrow> exn option"
  time_int :: "nat \<Rightarrow> int"

record post_state =
  items_put :: "pyval list"
  clock_reads :: nat

text \<open>
  The loop of \<open>save_to_db\<close>. The dict display unpacks \<open>**record\<close> first (a \<open>TypeError\<close>
  when the record is no mapping), then stores \<open>ttl\<close> and \<open>created_at\<close>; the clock is read
  once for each record.
\<close>

fun put_records :: "pylib \<Rightarrow> post_env \<Rightarrow> int \<Rightarrow> pyval list \<Rightarrow> post_state \<Rightarrow> exn option \<times> post_state" where
  "put_records L E ttl_timestamp [] st = (None, st)"
| "put_records L E ttl_timestamp (record # records) st =
     (case record of
        PDict kvs \<Rightarrow>
          (let created_at = time_int E (clock_reads st);
               item = convert_floats_to_decimal L
                 (PDict (AList.update ''created_at'' (PInt created_at)
                   (AList.update ''ttl'' (PInt ttl_timestamp) kvs)));
               raised = put_item_raises E (items_put st) item;
               st' = st\<lparr>items_put := items_put st @ [item], clock_reads := Suc (clock_reads st)\<rparr>
           in (case raised of
                 Some e \<Rightarrow> (Some e, st')
               | None \<Rightarrow> put_records L E ttl_timestamp records st'))
      | _ \<Rightarrow> (Some (TypeError Not_mapping record), st))"

text \<open>
  \<open>save_to_db\<close>: the TTL is computed once, before the batch writer is opened. Leaving the
  \<open>with\<close> block flushes the writer, also when the block raised; an exception of the flush
  replaces the one in flight. The \<open>except\<close> clause logs and re-raises.
\<close>

definition save_to_db :: "pylib \<Rightarrow> post_env \<Rightarrow> pyval list \<Rightarrow> post_state \<Rightarrow> exn option \<times> post_state" where
  "save_to_db L E records st =
     (let ttl_timestamp = time_int E (clock_reads st) + TTL_SECONDS;
          st1 = st\<lparr>clock_reads := Suc (clock_reads st)\<rparr>
      in (case batch_writer_raises E of
            Some e \<Rightarrow> (Some e, st1)
          | None \<Rightarrow>
              (case put_records L E ttl_timestamp records st1 of
                 (raised, st2) \<Rightarrow>
                   (case batch_exit_raises E (items_put st2) of
                      Some e \<Rightarrow> (Some e, st2)
                    | None \<Rightarrow> (raised, st2)))))"

record response =
  isBase64Encoded :: bool
  statusCode :: int
  headers :: "(string \<times> string) list"
  body :: string

definition error_response :: "pylib \<Rightarrow> int \<Rightarrow> string \<Rightarrow> response" where
  "error_response L code msg =
     \<lparr>isBase64Encoded = False, statusCode = code,
      headers = [(''Content-Type'', ''application/json'')],
      body = json_text L (PDict [(''errorMessage'', PStr msg)])\<rparr>"

definition created_response :: "pylib \<Rightarrow> nat \<Rightarrow> response" where
  "created_response L n =
     \<lparr>isBase64Encoded = False, statusCode = 201,
      headers = [(''Content-Type'', ''application/json'')],
      body = json_text L (PDict [(''message'', PStr (''Successfully saved '' @ str_nat n @ '' orders'')),
                                 (''count'', PInt (int n))])\<rparr>"

text \<open>
  The validation loop: \<open>Inr True\<close> when every order passed, \<open>Inr False\<close> at the first order
  for which \<open>'record_id' not in order\<close> holds, the exception when the test itself raises.
\<close>

fun all_have_record_id :: "pyval list \<Rightarrow> exn + bool" where
  "all_have_record_id [] = Inr True"
| "all_have_record_id (order # orders) =
     (case py_in ''record_id'' order of
        Inl e \<Rightarrow> Inl e
      | Inr False \<Rightarrow> Inr False
      | Inr True \<Rightarrow> all_have_record_id orders)"

text \<open>The body of the \<open>try\<close> block: a response, or the exception that leaves the block.\<close>

definition post_try :: "pylib \<Rightarrow> post_env \<Rightarrow> (string \<times> pyval) list \<Rightarrow> post_state \<Rightarrow> (exn + response) \<times> post_state" where
  "post_try L E event st =
     (case map_of event ''body'' of
        None \<Rightarrow> (Inr (error_response L 400 ''Request body is empty''), st)
      | Some PNone \<Rightarrow> (Inr (error_response L 400 ''Request body is empty''), st)
      | Some body' \<Rightarrow>
          (case (case body' of PStr s \<Rightarrow> json_loads L s | _ \<Rightarrow> Inr body') of
             Inl e \<Rightarrow> (Inl e, st)
           | Inr (PList orders) \<Rightarrow>
               (case all_have_record_id orders of
                  Inl e \<Rightarrow> (Inl e, st)
                | Inr False \<Rightarrow>
                    (Inr (error_response L 400 ''Each order must have a 'record_id' field''), st)
                | Inr True \<Rightarrow>
                    (case save_to_db L E orders st of
                       (Some e, st') \<Rightarrow> (Inl e, st')
                     | (None, st') \<Rightarrow> (Inr (created_response L (length orders)), st')))
           | Inr _ \<Rightarrow> (Inr (error_response L 400 ''Request body must be a list of orders''), st)))"

text \<open>
  The handler. \<open>event['httpMethod']\<close> and \<open>event['path']\<close> are read for the log line before
  the \<open>try\<close> block: a \<open>KeyError\<close> there leaves the handler (\<open>Inl\<close>). Inside the block a
  \<open>JSONDecodeError\<close> becomes a 400 response and any other exception a 500 response.
\<close>

definition post_lambda_handler :: "pylib \<Rightarrow> post_env \<Rightarrow> (string \<times> pyval) list \<Rightarrow> post_state \<Rightarrow> (exn + response) \<times> post_state" where
  "post_lambda_handler L E event st =
     (case map_of event ''httpMethod'' of
        None \<Rightarrow> (Inl (KeyError ''httpMethod''), st)
      | Some m \<Rightarrow>
          (case map_of event ''path'' of
             None \<Rightarrow> (Inl (KeyError ''path''), st)
           | Some p \<Rightarrow>
               (case post_try L E event st of
                  (Inr r, st') \<Rightarrow> (Inr r, st')
                | (Inl (JSONDecodeError d), st') \<Rightarrow>
                    (Inr (error_response L 400 (''Invalid JSON: '' @ str_exn L (JSONDecodeError d))), st')
                | (Inl e, st') \<Rightarrow>
                    (Inr (error_response L 500 (''Internal server error: '' @ str_exn L e)), st'))))"

section \<open>lambda\_b: the order archiver\<close>

text \<open>
  The object store. \<open>put_object_raises\<close> says whether a \<open>put_object\<close> call (given the calls
  made before it) raises; \<open>now_isoformat\<close> is what
  \<open>dt.datetime.now(dt.UTC).isoformat()\<close> returns in this invocation. The state of the
  archiver is the list of \<open>put_object\<close> calls made so far.
\<close>

record s3_object =
  Bucket :: string
  Key :: string
  Body :: string
  ContentType :: string
  ServerSideEncryption :: string

record lambda_b_env =
  LOG_BUCKET :: string
  put_object_raises :: "s3_object list \<Rightarrow> s3_object \<Rightarrow> exn option"
  now_isoformat :: string

definition save_to_s3 :: "pylib \<Rightarrow> lambda_b_env \<Rightarrow> pyval \<Rightarrow> string \<Rightarrow> s3_object list \<Rightarrow> exn option \<times> s3_object list" where
  "save_to_s3 L E data filename puts =
     (let json_data = json_text_default_str L data;
          request = \<lparr>Bucket = LOG_BUCKET E, Key = filename @ ''.json'', Body = json_data,
                     ContentType = ''application/json'', ServerSideEncryption = ''AES256''\<rparr>
      in (put_object_raises E puts request, puts @ [request]))"

text \<open>
  The handler first formats the log line with \<open>json.dumps(event)\<close>, then reads
  \<open>event['status']\<close>, raises on a rejected order and archives any other.
\<close>

definition lambda_b_handler :: "pylib \<Rightarrow> lambda_b_env \<Rightarrow> pyval \<Rightarrow> s3_object list \<Rightarrow> (exn + pyval) \<times> s3_object list" where
  "lambda_b_handler L E event puts =
     (case json_dumps L event of
        Inl e \<Rightarrow> (Inl e, puts)
      | Inr logged \<Rightarrow>
          (case py_getitem event ''status'' of
             Inl e \<Rightarrow> (Inl e, puts)
           | Inr status \<Rightarrow>
               if status = PStr ''rejected'' then (Inl (ValueError ''Order status is rejected!''), puts)
               else
                 (case save_to_s3 L E event (''orders/order_'' @ now_isoformat E) puts of
                    (Some e, puts') \<Rightarrow> (Inl e, puts')
                  | (None, puts') \<Rightarrow>
                      (Inr (PDict [(''statusCode'', PInt 200),
                                   (''message'', PStr ''Order processed successfully''),
                                   (''order'', event)]), puts'))))"

section \<open>authorizer\_lambda: the token authorizer\<close>

text \<open>
  The environment of the authorizer: the variable \<open>JWT_SECRET_NAME\<close>, the secrets
  manager (\<open>get_secret_value\<close> returns the response mapping or raises) and
  \<open>jwt.decode(token, key, algorithms=['HS256'])\<close>, which returns the claims or raises.
  The state is the module's cached secret and the lines printed so far.
\<close>

record auth_env =
  JWT_SECRET_NAME :: "string option"
  get_secret_value :: "string \<Rightarrow> exn + (string \<times> string) list"
  jwt_decode :: "string \<Rightarrow> string \<Rightarrow> exn + (string \<times> pyval) list"

record auth_state =
  cached_secret :: "string option"
  printed :: "string list"

definition get_secret_key :: "auth_env \<Rightarrow> auth_state \<Rightarrow> (exn + string) \<times> auth_state" where
  "get_secret_key E st =
     (case cached_secret st of
        Some s \<Rightarrow> (Inr s, st)
      | None \<Rightarrow>
          (case JWT_SECRET_NAME E of
             None \<Rightarrow> (Inl (ValueError ''JWT_SECRET_NAME environment variable not set''), st)
           | Some secret_name \<Rightarrow>
               if secret_name = [] then
                 (Inl (ValueError ''JWT_SECRET_NAME environment variable not set''), st)
               else
                 (case get_secret_value E secret_name of
                    Inl e \<Rightarrow> (Inl e, st)
                  | Inr response \<Rightarrow>
                      (case map_of response ''SecretString'' of
                         None \<Rightarrow> (Inl (KeyError ''SecretString''), st)
                       | Some s \<Rightarrow> (Inr s, st\<lparr>cached_secret := Some s\<rparr>)))))"

definition validate_token :: "auth_env \<Rightarrow> string \<Rightarrow> auth_state \<Rightarrow> (exn + (string \<times> pyval) list) \<times> auth_state" where
  "validate_token E token st =
     (case get_secret_key E st of
        (Inl e, st') \<Rightarrow> (Inl e, st')
      | (Inr secret_key, st') \<Rightarrow> (jwt_decode E token secret_key, st'))"

text \<open>\<open>if context:\<close> holds for a mapping that is given and not empty.\<close>

definition generate_policy :: "pyval \<Rightarrow> string \<Rightarrow> string \<Rightarrow> (string \<times> pyval) list option \<Rightarrow> pyval" where
  "generate_policy principal_id effect resource ctx =
     (let policy =
            [(''principalId'', principal_id),
             (''policyDocument'',
                PDict [(''Version'', PStr ''2012-10-17''),
                       (''Statement'',
                          PList [PDict [(''Action'', PStr ''execute-api:Invoke''),
                                        (''Effect'', PStr effect),
                                        (''Resource'', PStr resource)]])])]
      in (case ctx of
            None \<Rightarrow> PDict policy
          | Some c \<Rightarrow> if c \<noteq> [] then PDict (AList.update ''context'' (PDict c) policy) else PDict policy))"

text \<open>
  \<open>str.lower\<close> and \<open>str.startswith\<close>. A string is its UTF-8 bytes; only an ASCII letter
  lower-cases to a letter of \<open>'bearer '\<close>, so lower-casing the ASCII letters decides the
  prefix test as Python's \<open>lower\<close> does.
\<close>

definition ascii_lower :: "char \<Rightarrow> char" where
  "ascii_lower c = (let n = (of_char c :: nat) in if 65 \<le> n \<and> n \<le> 90 then char_of (n + 32) else c)"

definition str_lower :: "string \<Rightarrow> string" where
  "str_lower s = map ascii_lower s"

definition startswith :: "string \<Rightarrow> string \<Rightarrow> bool" where
  "startswith s p = (take (length p) s = p)"

text \<open>\<open>d.get(k, default)\<close>.\<close>

definition dict_get :: "('k \<times> 'v) list \<Rightarrow> 'k \<Rightarrow> 'v \<Rightarrow> 'v" where
  "dict_get d k dflt = (case map_of d k of None \<Rightarrow> dflt | Some v \<Rightarrow> v)"

text \<open>The token of an \<open>authorizationToken\<close>: what follows the prefix \<open>Bearer\<close>, if it is there.\<close>

definition bearer_token :: "string \<Rightarrow> string" where
  "bearer_token auth_token =
     (if startswith (str_lower auth_token) ''bearer '' then drop 7 auth_token else auth_token)"

text \<open>
  The body of the \<open>try\<close> block. The event of a TOKEN authorizer carries strings:
  \<open>authorizationToken\<close> and \<open>methodArn\<close>.
\<close>

definition authorizer_try :: "auth_env \<Rightarrow> (string \<times> string) list \<Rightarrow> auth_state \<Rightarrow> (exn + pyval) \<times> auth_state" where
  "authorizer_try E event st =
     (let auth_token = dict_get event ''authorizationToken'' [];
          method_arn = dict_get event ''methodArn'' ''*''
      in if auth_token = [] then (Inl (ValueError ''No authorization token provided''), st)
         else
           (let token = bearer_token auth_token
            in (case validate_token E token st of
                  (Inl e, st') \<Rightarrow> (Inl e, st')
                | (Inr claims, st') \<Rightarrow>
                    (let principal_id =
                           dict_get claims ''sub'' (dict_get claims ''email'' (PStr ''user''));
                         auth_context =
                           [(''userId'', principal_id),
                            (''email'', dict_get claims ''email'' (PStr []))]
                     in (Inr (generate_policy principal_id ''Allow'' method_arn (Some auth_context)), st')))))"

text \<open>
  The handler: each \<open>except\<close> clause prints its own line and raises
  \<open>Exception('Unauthorized')\<close>.
\<close>

definition authorizer_lambda_handler :: "pylib \<Rightarrow> auth_env \<Rightarrow> (string \<times> string) list \<Rightarrow> auth_state \<Rightarrow> (exn + pyval) \<times> auth_state" where
  "authorizer_lambda_handler L E event st =
     (case authorizer_try E event st of
        (Inr policy, st') \<Rightarrow> (Inr policy, st')
      | (Inl (ExpiredSignatureError m), st') \<Rightarrow>
          (Inl (Exception ''Unauthorized''), st'\<lparr>printed := printed st' @ [''Token expired'']\<rparr>)
      | (Inl (InvalidTokenError m), st') \<Rightarrow>
          (Inl (Exception ''Unauthorized''),
           st'\<lparr>printed := printed st' @ [''Invalid token: '' @ str_exn L (InvalidTokenError m)]\<rparr>)
      | (Inl e, st') \<Rightarrow>
          (Inl (Exception ''Unauthorized''),
           st'\<lparr>printed := printed st' @ [''Authorization error: '' @ str_exn L e]\<rparr>))"

section \<open>lambda\_a: the order generator\<close>

text \<open>
  Modelled from the spec: the source of \<open>lambda_a/app.py\<close> is not part of the sources at
  hand, only its tests are. The handler ignores its event, draws one boolean from
  \<open>random.choice\<close> (the argument \<open>draw\<close>) and returns the fixed document of that outcome.
\<close>

definition lambda_a_handler :: "bool \<Rightarrow> pyval \<Rightarrow> pyval" where
  "lambda_a_handler draw event =
     (if draw then
        PDict [(''results'', PBool True),
               (''orders'',
                  PList [PDict [(''status'', PStr ''accepted''), (''power'', PInt 1)],
                         PDict [(''status'', PStr ''rejected''), (''power'', PInt 2)]])]
      else PDict [(''results'', PBool False)])"

section \<open>The spec's wording and sample environments\<close>

text \<open>
  The spec's requirement on a submitted record, in its own words: the record carries a
  non-empty \<open>record_id\<close>.
\<close>

definition spec_carries_nonempty_record_id :: "pyval \<Rightarrow> bool" where
  "spec_carries_nonempty_record_id order =
     (case order of
        PDict kvs \<Rightarrow> map_of kvs ''record_id'' \<noteq> None \<and> map_of kvs ''record_id'' \<noteq> Some (PStr [])
      | _ \<Rightarrow> False)"

text \<open>A document still has a floating-point leaf, at any depth.\<close>

fun has_float_leaf :: "pyval \<Rightarrow> bool" where
  "has_float_leaf (PFloat x) = True"
| "has_float_leaf (PList xs) = list_ex has_float_leaf xs"
| "has_float_leaf (PDict kvs) = list_ex (\<lambda>(k, v). has_float_leaf v) kvs"
| "has_float_leaf obj = False"

text \<open>
  The part of a document at a path: a path goes down through the keys of mappings and
  the positions of sequences. \<open>None\<close> when the document has nothing at the path.
\<close>

datatype step = Key string | Index nat

fun subdoc :: "pyval \<Rightarrow> step list \<Rightarrow> pyval option" where
  "subdoc v [] = Some v"
| "subdoc (PDict kvs) (Key k # p) = (case map_of kvs k of None \<Rightarrow> None | Some v \<Rightarrow> subdoc v p)"
| "subdoc (PList xs) (Index i # p) = (if i < length xs then subdoc (xs ! i) p else None)"
| "subdoc v (s # p) = None"

text \<open>
  A sample instance of the library functions, for running the handlers on concrete
  inputs: \<open>str\<close> knows the float 50.25 (bit pattern \<open>0x4049200000000000\<close>), \<open>json.loads\<close>
  knows two documents and rejects every other text, \<open>json.dumps\<close> writes a document
  without escapes.
\<close>

fun join_str :: "string \<Rightarrow> string list \<Rightarrow> string" where
  "join_str sep [] = []"
| "join_str sep [x] = x"
| "join_str sep (x # y # ys) = x @ sep @ join_str sep (y # ys)"

fun sample_json_text :: "pyval \<Rightarrow> string" where
  "sample_json_text PNone = ''null''"
| "sample_json_text (PBool b) = (if b then ''true'' else ''false'')"
| "sample_json_text (PInt i) = (if i < 0 then ''-'' @ str_nat (nat (- i)) else str_nat (nat i))"
| "sample_json_text (PFloat x) = (if x = 0x4049200000000000 then ''50.25'' else ''0.0'')"
| "sample_json_text (PStr s) = ''\"'' @ s @ ''\"''"
| "sample_json_text (PDecimal s) = ''\"'' @ s @ ''\"''"
| "sample_json_text (PList xs) = ''['' @ join_str '', '' (map sample_json_text xs) @ '']''"
| "sample_json_text (PDict kvs) =
     ''{'' @ join_str '', '' (map (\<lambda>(k, v). ''\"'' @ k @ ''\": '' @ sample_json_text v) kvs) @ ''}''"

definition sample_str_exn :: "exn \<Rightarrow> string" where
  "sample_str_exn e =
     (case e of
        ValueError m \<Rightarrow> m
      | KeyError k \<Rightarrow> [CHR 0x27] @ k @ [CHR 0x27]
      | TypeError opn v \<Rightarrow> ''unsupported operand''
      | JSONDecodeError m \<Rightarrow> m
      | ExpiredSignatureError m \<Rightarrow> m
      | InvalidTokenError m \<Rightarrow> m
      | ClientError m \<Rightarrow> m
      | Exception m \<Rightarrow> m)"

definition sample_json_loads :: "string \<Rightarrow> exn + pyval" where
  "sample_json_loads s =
     (if s = ''[]'' then Inr (PList [])
      else if s = ''[{\"record_id\": \"order-001\", \"price\": 50.25}]'' then
        Inr (PList [PDict [(''record_id'', PStr ''order-001''), (''price'', PFloat 0x4049200000000000)]])
      else Inl (JSONDecodeError ''Expecting value: line 1 column 1 (char 0)''))"

definition sample_lib :: pylib where
  "sample_lib =
     \<lparr>float_str = (\<lambda>x. if x = 0x4049200000000000 then ''50.25'' else ''0.0''),
      str_exn = sample_str_exn,
      json_loads = sample_json_loads,
      json_text = sample_json_text,
      json_text_default_str = sample_json_text\<rparr>"

text \<open>
  A table that never raises, with a clock that reads 100 at the first call and 101
  from the second call on; and the state of a fresh execution context.
\<close>

definition sample_post_env :: post_env where
  "sample_post_env =
     \<lparr>batch_writer_raises = None,
      put_item_raises = (\<lambda>before item. None),
      batch_exit_raises = (\<lambda>items. None),
      time_int = (\<lambda>n. if n = 0 then 100 else 101)\<rparr>"

definition fresh_post_state :: post_state where
  "fresh_post_state = \<lparr>items_put = [], clock_reads = 0\<rparr>"

text \<open>
  The events of the test fixtures: a batch of two orders, already parsed, and the same
  request with one order that has a price and arrives as text.
\<close>

definition sample_api_event :: "(string \<times> pyval) list" where
  "sample_api_event =
     [(''httpMethod'', PStr ''POST''), (''path'', PStr ''/orders''),
      (''body'', PList [PDict [(''record_id'', PStr ''order-001''), (''status'', PStr ''pending''), (''power'', PInt 100)],
                        PDict [(''record_id'', PStr ''order-002''), (''status'', PStr ''pending''), (''power'', PInt 200)]])]"

definition sample_api_event_text :: "(string \<times> pyval) list" where
  "sample_api_event_text =
     [(''httpMethod'', PStr ''POST''), (''path'', PStr ''/orders''),
      (''body'', PStr ''[{\"record_id\": \"order-001\", \"price\": 50.25}]'')]"

text \<open>
  An object store that never raises, and two authorizer environments: one whose secret
  is configured and whose \<open>jwt.decode\<close> accepts the token \<open>good\<close> and finds every other
  token expired, and one with no \<open>JWT_SECRET_NAME\<close>.
\<close>

definition sample_lambda_b_env :: lambda_b_env where
  "sample_lambda_b_env =
     \<lparr>LOG_BUCKET = ''test-bucket'',
      put_object_raises = (\<lambda>before request. None),
      now_isoformat = ''2026-01-01T00:00:00+00:00''\<rparr>"

definition sample_auth_env :: auth_env where
  "sample_auth_env =
     \<lparr>JWT_SECRET_NAME = Some ''test-secret'',
      get_secret_value = (\<lambda>name. Inr [(''SecretString'', ''test-secret-key'')]),
      jwt_decode = (\<lambda>token key.
         if token = ''good'' \<and> key = ''test-secret-key'' then
           Inr [(''sub'', PStr ''user123''), (''email'', PStr ''test@example.com'')]
         else Inl (ExpiredSignatureError ''Signature has expired''))\<rparr>"

definition unconfigured_auth_env :: auth_env where
  "unconfigured_auth_env = sample_auth_env\<lparr>JWT_SECRET_NAME := None\<rparr>"

definition fresh_auth_state :: auth_state where
  "fresh_auth_state = \<lparr>cached_secret = None, printed = []\<rparr>"

definition sample_token_event :: "(string \<times> string) list" where
  "sample_token_event =
     [(''type'', ''TOKEN''), (''authorizationToken'', ''Bearer good''),
      (''methodArn'', ''arn:aws:execute-api:eu-west-1:123456789:api/dev/POST/orders'')]"

definition expired_token_event :: "(string \<times> string) list" where
  "expired_token_event =
     [(''type'', ''TOKEN''), (''authorizationToken'', ''Bearer old''),
      (''methodArn'', ''arn:aws:execute-api:eu-west-1:123456789:api/dev/POST/orders'')]"

section \<open>Theorems\<close>

subsection \<open>The float-to-decimal conversion\<close>

text \<open>
  C7. The conversion is idempotent: applied twice it gives what it gives applied once,
  for every document; a decimal, an integer and a string pass through unchanged.
\<close>

theorem convert_floats_to_decimal_idempotent:
  "convert_floats_to_decimal L (convert_floats_to_decimal L v) = convert_floats_to_decimal L v
   \<and> convert_floats_to_decimal L (PDecimal d) = PDecimal d
   \<and> convert_floats_to_decimal L (PInt i) = PInt i
   \<and> convert_floats_to_decimal L (PStr s) = PStr s"
proof -
  have "convert_floats_to_decimal L (convert_floats_to_decimal L v) = convert_floats_to_decimal L v"
    by (induction L v rule: convert_floats_to_decimal.induct) auto
  then show ?thesis by simp
qed

lemma convert_floats_to_decimal_no_float:
  "\<not> has_float_leaf (convert_floats_to_decimal L v)"
  by (induction L v rule: convert_floats_to_decimal.induct) (auto simp: list_ex_iff)

text \<open>
  What the conversion does, path by path: it keeps the shape of the document (the keys
  of every mapping, the length of every sequence), turns a float leaf \<open>x\<close> into
  \<open>Decimal(str(x))\<close> and leaves every other leaf as it is.
\<close>

lemma map_of_convert:
  "map_of (map (\<lambda>(k, v). (k, convert_floats_to_decimal L v)) kvs) k =
     map_option (convert_floats_to_decimal L) (map_of kvs k)"
  by (induction kvs) auto

lemma subdoc_convert:
  "subdoc (convert_floats_to_decimal L v) p = map_option (convert_floats_to_decimal L) (subdoc v p)"
proof (induction p arbitrary: v)
  case Nil
  then show ?case by simp
next
  case (Cons s p)
  show ?case
  proof (cases v)
    case (PDict kvs)
    then show ?thesis
      using Cons.IH by (cases s) (auto simp: map_of_convert split: option.splits)
  next
    case (PList xs)
    then show ?thesis
      using Cons.IH by (cases s) auto
  qed (cases s; simp)+
qed

lemma subdoc_convert_cases:
  "(case subdoc v p of
      None \<Rightarrow> subdoc (convert_floats_to_decimal L v) p = None
    | Some (PFloat x) \<Rightarrow> subdoc (convert_floats_to_decimal L v) p = Some (PDecimal (float_str L x))
    | Some (PList xs) \<Rightarrow>
        (\<exists>ys. subdoc (convert_floats_to_decimal L v) p = Some (PList ys) \<and> length ys = length xs)
    | Some (PDict fs) \<Rightarrow>
        (\<exists>gs. subdoc (convert_floats_to_decimal L v) p = Some (PDict gs) \<and> map fst gs = map fst fs)
    | Some leaf \<Rightarrow> subdoc (convert_floats_to_decimal L v) p = Some leaf)"
  by (auto simp: subdoc_convert comp_def case_prod_unfold split: option.splits pyval.splits)

subsection \<open>The ingestion handler: its gates\<close>

lemma all_have_record_id_mappings:
  "\<forall>order \<in> set orders. \<exists>kvs. order = PDict kvs \<Longrightarrow>
   all_have_record_id orders =
     Inr (\<forall>order \<in> set orders. \<exists>kvs. order = PDict kvs \<and> map_of kvs ''record_id'' \<noteq> None)"
  by (induction orders) (auto split: sum.splits bool.splits)

lemma post_try_list:
  assumes "map_of event ''body'' = Some (PList orders)
           \<or> (\<exists>s. map_of event ''body'' = Some (PStr s) \<and> json_loads L s = Inr (PList orders))"
  shows "post_try L E event st =
     (case all_have_record_id orders of
        Inl e \<Rightarrow> (Inl e, st)
      | Inr False \<Rightarrow> (Inr (error_response L 400 ''Each order must have a 'record_id' field''), st)
      | Inr True \<Rightarrow>
          (case save_to_db L E orders st of
             (Some e, st') \<Rightarrow> (Inl e, st')
           | (None, st') \<Rightarrow> (Inr (created_response L (length orders)), st')))"
  using assms by (auto simp: post_try_def)

lemma post_lambda_handler_keys:
  assumes "map_of event ''httpMethod'' \<noteq> None" and "map_of event ''path'' \<noteq> None"
  shows "post_lambda_handler L E event st =
     (case post_try L E event st of
        (Inr r, st') \<Rightarrow> (Inr r, st')
      | (Inl (JSONDecodeError d), st') \<Rightarrow>
          (Inr (error_response L 400 (''Invalid JSON: '' @ str_exn L (JSONDecodeError d))), st')
      | (Inl e, st') \<Rightarrow>
          (Inr (error_response L 500 (''Internal server error: '' @ str_exn L e)), st'))"
  using assms by (auto simp: post_lambda_handler_def)

text \<open>An absent or null body is the one that gets the answer \<open>Request body is empty\<close>.\<close>

lemma post_lambda_null_body:
  assumes "map_of event ''httpMethod'' \<noteq> None" and "map_of event ''path'' \<noteq> None"
    and "map_of event ''body'' = None \<or> map_of event ''body'' = Some PNone"
  shows "post_lambda_handler L E event st = (Inr (error_response L 400 ''Request body is empty''), st)"
proof -
  have "post_try L E event st = (Inr (error_response L 400 ''Request body is empty''), st)"
    using assms(3) by (auto simp: post_try_def)
  then show ?thesis
    by (simp add: post_lambda_handler_keys[OF assms(1,2)])
qed

text \<open>
  C3, as amended. When the parsed body is a list of mappings and at least one of them
  has no key \<open>record_id\<close>, the handler answers 400 with the message
  \<open>Each order must have a 'record_id' field\<close> and the state is the one it started from:
  nothing was handed to the table, for any record of the batch. The test is on the
  presence of the key only.
\<close>

theorem post_lambda_rejects_missing_record_id:
  assumes "map_of event ''httpMethod'' \<noteq> None" and "map_of event ''path'' \<noteq> None"
    and "map_of event ''body'' = Some (PList orders)
         \<or> (\<exists>s. map_of event ''body'' = Some (PStr s) \<and> json_loads L s = Inr (PList orders))"
    and "\<forall>order \<in> set orders. \<exists>kvs. order = PDict kvs"
    and "\<exists>order \<in> set orders. \<exists>kvs. order = PDict kvs \<and> map_of kvs ''record_id'' = None"
  shows "post_lambda_handler L E event st =
           (Inr \<lparr>isBase64Encoded = False, statusCode = 400,
                 headers = [(''Content-Type'', ''application/json'')],
                 body = json_text L
                   (PDict [(''errorMessage'', PStr ''Each order must have a 'record_id' field'')])\<rparr>,
            st)"
proof -
  have "all_have_record_id orders = Inr False"
    using assms(4,5) by (subst all_have_record_id_mappings) auto
  then have "post_try L E event st =
      (Inr (error_response L 400 ''Each order must have a 'record_id' field''), st)"
    by (simp add: post_try_list[OF assms(3)])
  then show ?thesis
    by (simp add: post_lambda_handler_keys[OF assms(1,2)] error_response_def)
qed

text \<open>A batch whose first order is complete and whose second has no \<open>record_id\<close>: nothing is written.\<close>

theorem post_lambda_rejects_missing_record_id_witness:
  "post_lambda_handler sample_lib sample_post_env
     [(''httpMethod'', PStr ''POST''), (''path'', PStr ''/orders''),
      (''body'', PList [PDict [(''record_id'', PStr ''order-001'')], PDict [(''status'', PStr ''pending'')]])]
     fresh_post_state
   = (Inr \<lparr>isBase64Encoded = False, statusCode = 400,
           headers = [(''Content-Type'', ''application/json'')],
           body = json_text sample_lib
             (PDict [(''errorMessage'', PStr ''Each order must have a 'record_id' field'')])\<rparr>,
      fresh_post_state)"
  using post_lambda_rejects_missing_record_id
    [of "[(''httpMethod'', PStr ''POST''), (''path'', PStr ''/orders''),
          (''body'', PList [PDict [(''record_id'', PStr ''order-001'')], PDict [(''status'', PStr ''pending'')]])]"
        "[PDict [(''record_id'', PStr ''order-001'')], PDict [(''status'', PStr ''pending'')]]"
        sample_lib sample_post_env fresh_post_state]
  by simp

text \<open>
  C3 as stated fails: a record whose \<open>record_id\<close> is the empty string does not carry a
  non-empty \<open>record_id\<close>, yet the batch is accepted with 201 and its item is put.
\<close>

theorem post_lambda_empty_record_id_counterexample:
  "\<not> spec_carries_nonempty_record_id (PDict [(''record_id'', PStr [])])
   \<and> post_lambda_handler sample_lib sample_post_env
       [(''httpMethod'', PStr ''POST''), (''path'', PStr ''/orders''),
        (''body'', PList [PDict [(''record_id'', PStr [])]])]
       fresh_post_state
     = (Inr (created_response sample_lib 1),
        \<lparr>items_put = [PDict [(''record_id'', PStr []), (''ttl'', PInt 86500), (''created_at'', PInt 101)]],
         clock_reads = 2\<rparr>)
   \<and> statusCode (created_response sample_lib 1) = 201"
  by (simp add: spec_carries_nonempty_record_id_def post_lambda_handler_def post_try_def
      save_to_db_def sample_post_env_def fresh_post_state_def TTL_SECONDS_def created_response_def)

text \<open>
  C9. An event without the key \<open>httpMethod\<close> or without the key \<open>path\<close> makes the handler
  raise \<open>KeyError\<close> on the first of the two that is missing. The exception leaves the
  handler: there is no response, and the state is untouched, so no validation step and no
  write took place.
\<close>

theorem post_lambda_missing_event_key:
  assumes "map_of event ''httpMethod'' = None \<or> map_of event ''path'' = None"
  shows "post_lambda_handler L E event st =
           (Inl (KeyError (if map_of event ''httpMethod'' = None then ''httpMethod'' else ''path'')), st)"
  using assms by (auto simp: post_lambda_handler_def split: option.splits)

theorem post_lambda_missing_event_key_witness:
  "map_of [(''httpMethod'', PStr ''POST''), (''body'', PStr ''[]'')] ''path'' = None
   \<and> post_lambda_handler sample_lib sample_post_env
       [(''httpMethod'', PStr ''POST''), (''body'', PStr ''[]'')] fresh_post_state
     = (Inl (KeyError ''path''), fresh_post_state)"
  using post_lambda_missing_event_key
    [of "[(''httpMethod'', PStr ''POST''), (''body'', PStr ''[]'')]" sample_lib sample_post_env fresh_post_state]
  by simp

text \<open>
  C10. A body that is the empty string is not the null body: it goes to \<open>json.loads\<close>,
  which raises \<open>JSONDecodeError\<close> on the empty text, and the handler answers 400 with the
  message \<open>Invalid JSON: \<close> followed by the parser's detail. The same event with a null
  body gets the 400 answer \<open>Request body is empty\<close>; the two answers differ whenever
  \<open>json.dumps\<close> writes different messages as different texts.
\<close>

theorem post_lambda_empty_string_body:
  assumes "map_of event ''httpMethod'' \<noteq> None" and "map_of event ''path'' \<noteq> None"
    and "map_of event ''body'' = Some (PStr [])"
    and "json_loads L [] = Inl (JSONDecodeError d)"
  shows "post_lambda_handler L E event st =
           (Inr \<lparr>isBase64Encoded = False, statusCode = 400,
                 headers = [(''Content-Type'', ''application/json'')],
                 body = json_text L
                   (PDict [(''errorMessage'', PStr (''Invalid JSON: '' @ str_exn L (JSONDecodeError d)))])\<rparr>,
            st)
       \<and> take 13 (''Invalid JSON: '' @ str_exn L (JSONDecodeError d)) = ''Invalid JSON:''
       \<and> post_lambda_handler L E (AList.update ''body'' PNone event) st =
           (Inr \<lparr>isBase64Encoded = False, statusCode = 400,
                 headers = [(''Content-Type'', ''application/json'')],
                 body = json_text L (PDict [(''errorMessage'', PStr ''Request body is empty'')])\<rparr>,
            st)
       \<and> ((\<forall>m m'. json_text L (PDict [(''errorMessage'', PStr m)]) =
                    json_text L (PDict [(''errorMessage'', PStr m')]) \<longrightarrow> m = m')
            \<longrightarrow> post_lambda_handler L E event st \<noteq>
                  (Inr \<lparr>isBase64Encoded = False, statusCode = 400,
                        headers = [(''Content-Type'', ''application/json'')],
                        body = json_text L (PDict [(''errorMessage'', PStr ''Request body is empty'')])\<rparr>,
                   st))"
proof -
  have "post_try L E event st = (Inl (JSONDecodeError d), st)"
    using assms(3,4) by (simp add: post_try_def)
  then have a: "post_lambda_handler L E event st =
           (Inr \<lparr>isBase64Encoded = False, statusCode = 400,
                 headers = [(''Content-Type'', ''application/json'')],
                 body = json_text L
                   (PDict [(''errorMessage'', PStr (''Invalid JSON: '' @ str_exn L (JSONDecodeError d)))])\<rparr>,
            st)"
    by (simp add: post_lambda_handler_keys[OF assms(1,2)] error_response_def)
  have k: "map_of (AList.update ''body'' PNone event) ''httpMethod'' \<noteq> None"
    "map_of (AList.update ''body'' PNone event) ''path'' \<noteq> None"
    "map_of (AList.update ''body'' PNone event) ''body'' = None
     \<or> map_of (AList.update ''body'' PNone event) ''body'' = Some PNone"
    using assms(1,2) by (simp_all add: update_conv')
  have b: "post_lambda_handler L E (AList.update ''body'' PNone event) st =
           (Inr \<lparr>isBase64Encoded = False, statusCode = 400,
                 headers = [(''Content-Type'', ''application/json'')],
                 body = json_text L (PDict [(''errorMessage'', PStr ''Request body is empty'')])\<rparr>,
            st)"
    using post_lambda_null_body[OF k] by (simp add: error_response_def)
  have c: "post_lambda_handler L E event st \<noteq>
                  (Inr \<lparr>isBase64Encoded = False, statusCode = 400,
                        headers = [(''Content-Type'', ''application/json'')],
                        body = json_text L (PDict [(''errorMessage'', PStr ''Request body is empty'')])\<rparr>,
                   st)"
    if inj: "\<forall>m m'. json_text L (PDict [(''errorMessage'', PStr m)]) =
                    json_text L (PDict [(''errorMessage'', PStr m')]) \<longrightarrow> m = m'"
  proof
    assume "post_lambda_handler L E event st =
                  (Inr \<lparr>isBase64Encoded = False, statusCode = 400,
                        headers = [(''Content-Type'', ''application/json'')],
                        body = json_text L (PDict [(''errorMessage'', PStr ''Request body is empty'')])\<rparr>,
                   st)"
    with a have "json_text L (PDict [(''errorMessage'', PStr (''Invalid JSON: '' @ str_exn L (JSONDecodeError d)))])
        = json_text L (PDict [(''errorMessage'', PStr ''Request body is empty'')])"
      by simp
    with inj have "''Invalid JSON: '' @ str_exn L (JSONDecodeError d) = ''Request body is empty''"
      by blast
    then show False by simp
  qed
  from a b c show ?thesis by simp
qed

text \<open>The two answers under the sample library, written out.\<close>

theorem post_lambda_empty_string_body_witness:
  "json_loads sample_lib [] = Inl (JSONDecodeError ''Expecting value: line 1 column 1 (char 0)'')
   \<and> post_lambda_handler sample_lib sample_post_env
       [(''httpMethod'', PStr ''POST''), (''path'', PStr ''/orders''), (''body'', PStr [])] fresh_post_state
     = (Inr \<lparr>isBase64Encoded = False, statusCode = 400,
             headers = [(''Content-Type'', ''application/json'')],
             body = ''{\"errorMessage\": \"Invalid JSON: Expecting value: line 1 column 1 (char 0)\"}''\<rparr>,
        fresh_post_state)
   \<and> post_lambda_handler sample_lib sample_post_env
       [(''httpMethod'', PStr ''POST''), (''path'', PStr ''/orders''), (''body'', PNone)] fresh_post_state
     = (Inr \<lparr>isBase64Encoded = False, statusCode = 400,
             headers = [(''Content-Type'', ''application/json'')],
             body = ''{\"errorMessage\": \"Request body is empty\"}''\<rparr>,
        fresh_post_state)
   \<and> post_lambda_handler sample_lib sample_post_env
       [(''httpMethod'', PStr ''POST''), (''path'', PStr ''/orders''), (''body'', PStr [])] fresh_post_state
     \<noteq> (Inr \<lparr>isBase64Encoded = False, statusCode = 400,
             headers = [(''Content-Type'', ''application/json'')],
             body = ''{\"errorMessage\": \"Request body is empty\"}''\<rparr>,
        fresh_post_state)"
proof -
  have h: "json_loads sample_lib [] = Inl (JSONDecodeError ''Expecting value: line 1 column 1 (char 0)'')"
    by (simp add: sample_lib_def sample_json_loads_def)
  have inj: "\<forall>m m'. json_text sample_lib (PDict [(''errorMessage'', PStr m)]) =
                    json_text sample_lib (PDict [(''errorMessage'', PStr m')]) \<longrightarrow> m = m'"
    by (simp add: sample_lib_def)
  have t: "json_text sample_lib = sample_json_text" "str_exn sample_lib = sample_str_exn"
    by (simp_all add: sample_lib_def)
  show ?thesis
    using h inj post_lambda_empty_string_body
      [of "[(''httpMethod'', PStr ''POST''), (''path'', PStr ''/orders''), (''body'', PStr [])]"
          sample_lib "''Expecting value: line 1 column 1 (char 0)''" sample_post_env fresh_post_state]
    by (simp add: t sample_str_exn_def)
qed

subsection \<open>The ingestion handler: the items it writes\<close>

lemma put_records_ok:
  "put_records L E ttl rs st = (None, st') \<Longrightarrow>
     clock_reads st' = clock_reads st + length rs \<and>
     length (items_put st') = length (items_put st) + length rs \<and>
     take (length (items_put st)) (items_put st') = items_put st \<and>
     (\<forall>i < length rs. \<exists>kvs. rs ! i = PDict kvs \<and>
        items_put st' ! (length (items_put st) + i) =
          convert_floats_to_decimal L
            (PDict (AList.update ''created_at'' (PInt (time_int E (clock_reads st + i)))
              (AList.update ''ttl'' (PInt ttl) kvs))))"
proof (induction rs arbitrary: st)
  case Nil
  then show ?case by simp
next
  case (Cons r rs)
  from Cons.prems obtain kvs where r: "r = PDict kvs"
    by (cases r) auto
  define item where "item = convert_floats_to_decimal L
            (PDict (AList.update ''created_at'' (PInt (time_int E (clock_reads st)))
              (AList.update ''ttl'' (PInt ttl) kvs)))"
  define st1 where "st1 = st\<lparr>items_put := items_put st @ [item], clock_reads := Suc (clock_reads st)\<rparr>"
  from Cons.prems r have run: "put_records L E ttl rs st1 = (None, st')"
    by (auto simp: Let_def item_def st1_def split: option.splits)
  note IH = Cons.IH[OF run]
  have s1: "clock_reads st1 = Suc (clock_reads st)" "items_put st1 = items_put st @ [item]"
    by (simp_all add: st1_def)
  have a: "clock_reads st' = clock_reads st + length (r # rs)"
    using IH s1 by simp
  have b: "length (items_put st') = length (items_put st) + length (r # rs)"
    using IH s1 by simp
  have tk: "take (Suc (length (items_put st))) (items_put st') = items_put st @ [item]"
    using IH s1 by simp
  have c: "take (length (items_put st)) (items_put st') = items_put st"
  proof -
    have "take (length (items_put st)) (take (Suc (length (items_put st))) (items_put st')) = items_put st"
      unfolding tk by simp
    then show ?thesis by (simp add: min_def)
  qed
  have first: "items_put st' ! length (items_put st) = item"
  proof -
    have "take (Suc (length (items_put st))) (items_put st') ! length (items_put st) = item"
      unfolding tk by simp
    then show ?thesis by simp
  qed
  have d: "\<exists>kvs. (r # rs) ! i = PDict kvs \<and>
        items_put st' ! (length (items_put st) + i) =
          convert_floats_to_decimal L
            (PDict (AList.update ''created_at'' (PInt (time_int E (clock_reads st + i)))
              (AList.update ''ttl'' (PInt ttl) kvs)))" if "i < length (r # rs)" for i
  proof (cases i)
    case 0
    then show ?thesis using r first by (simp add: item_def)
  next
    case (Suc j)
    with that have "j < length rs" by simp
    with IH obtain kvs' where "rs ! j = PDict kvs'"
      "items_put st' ! (length (items_put st1) + j) =
          convert_floats_to_decimal L
            (PDict (AList.update ''created_at'' (PInt (time_int E (clock_reads st1 + j)))
              (AList.update ''ttl'' (PInt ttl) kvs')))"
      by blast
    then show ?thesis using Suc s1 by simp
  qed
  show ?case using a b c d by blast
qed

lemma save_to_db_ok:
  assumes "save_to_db L E records st = (None, st')"
  shows "put_records L E (time_int E (clock_reads st) + TTL_SECONDS) records
           (st\<lparr>clock_reads := Suc (clock_reads st)\<rparr>) = (None, st')"
  using assms by (auto simp: save_to_db_def Let_def split: option.splits prod.splits)

lemma post_lambda_handler_201:
  assumes "post_lambda_handler L E event st = (Inr r, st')" and "statusCode r = 201"
  shows "\<exists>orders. (map_of event ''body'' = Some (PList orders)
              \<or> (\<exists>s. map_of event ''body'' = Some (PStr s) \<and> json_loads L s = Inr (PList orders)))
            \<and> save_to_db L E orders st = (None, st')"
proof -
  from assms have keys: "map_of event ''httpMethod'' \<noteq> None" "map_of event ''path'' \<noteq> None"
    by (auto simp: post_lambda_handler_def split: option.splits)
  from assms have t: "post_try L E event st = (Inr r, st')"
    unfolding post_lambda_handler_keys[OF keys]
    by (auto simp: error_response_def split: prod.splits sum.splits exn.splits)
  obtain b where b: "map_of event ''body'' = Some b" "b \<noteq> PNone"
    using t assms(2) by (auto simp: post_try_def error_response_def split: option.splits pyval.splits)
  define parsed where "parsed = (case b of PStr s \<Rightarrow> json_loads L s | _ \<Rightarrow> Inr b)"
  from t b assms(2) obtain orders where o: "parsed = Inr (PList orders)"
    by (auto simp: post_try_def error_response_def parsed_def split: pyval.splits sum.splits)
  have src: "map_of event ''body'' = Some (PList orders)
              \<or> (\<exists>s. map_of event ''body'' = Some (PStr s) \<and> json_loads L s = Inr (PList orders))"
    using b o by (auto simp: parsed_def split: pyval.splits)
  from t assms(2) have "save_to_db L E orders st = (None, st')"
    unfolding post_try_list[OF src]
    by (auto simp: error_response_def split: sum.splits bool.splits prod.splits option.splits)
  with src show ?thesis by blast
qed

text \<open>
  A batch of mappings that all have a \<open>record_id\<close> is accepted when the table does not
  raise.
\<close>

lemma put_records_never_raising:
  assumes "\<forall>before item. put_item_raises E before item = None"
    and "\<forall>order \<in> set rs. \<exists>kvs. order = PDict kvs"
  shows "fst (put_records L E ttl rs st) = None"
  using assms(2)
proof (induction rs arbitrary: st)
  case Nil
  then show ?case by simp
next
  case (Cons r rs)
  then obtain kvs where "r = PDict kvs" by auto
  with Cons assms(1) show ?case by (simp add: Let_def)
qed

lemma post_lambda_accepts_batch:
  assumes "map_of event ''httpMethod'' \<noteq> None" and "map_of event ''path'' \<noteq> None"
    and "map_of event ''body'' = Some (PList orders)
         \<or> (\<exists>s. map_of event ''body'' = Some (PStr s) \<and> json_loads L s = Inr (PList orders))"
    and "\<forall>order \<in> set orders. \<exists>kvs. order = PDict kvs \<and> map_of kvs ''record_id'' \<noteq> None"
    and "batch_writer_raises E = None" and "\<forall>before item. put_item_raises E before item = None"
    and "\<forall>items. batch_exit_raises E items = None"
  shows "fst (post_lambda_handler L E event st) = Inr (created_response L (length orders))"
proof -
  have m: "\<forall>order \<in> set orders. \<exists>kvs. order = PDict kvs"
    using assms(4) by blast
  have v: "all_have_record_id orders = Inr True"
    using assms(4) by (subst all_have_record_id_mappings[OF m]) simp
  have "fst (save_to_db L E orders st) = None"
    using put_records_never_raising[OF assms(6) m] assms(5,7)
    by (simp add: save_to_db_def Let_def split: prod.splits)
  then obtain st' where "save_to_db L E orders st = (None, st')"
    by (metis prod.collapse)
  then have "post_try L E event st = (Inr (created_response L (length orders)), st')"
    by (simp add: post_try_list[OF assms(3)] v)
  then show ?thesis
    by (simp add: post_lambda_handler_keys[OF assms(1,2)])
qed

text \<open>
  C4, as amended. When the handler accepts a batch (it answers 201), the parsed body is
  a list of mappings and the items handed to the table are, in order and one for each
  record, the submitted record with \<open>ttl\<close> set to the clock reading taken once before the
  loop plus 86400 and \<open>created_at\<close> set to the clock reading taken when that record is
  processed, converted: at every path the item has what the submitted record has there,
  with a float leaf \<open>x\<close> replaced by \<open>Decimal(str(x))\<close>, every other leaf (an integer, a
  string, a boolean, a null, a decimal) unchanged, every mapping with the same keys and
  every sequence with the same length, also in nested mappings and sequences. The items
  put before the invocation are untouched.
\<close>

theorem post_lambda_items_written:
  assumes "post_lambda_handler L E event st = (Inr r, st')" and "statusCode r = 201"
  shows "\<exists>orders.
           (map_of event ''body'' = Some (PList orders)
            \<or> (\<exists>s. map_of event ''body'' = Some (PStr s) \<and> json_loads L s = Inr (PList orders)))
         \<and> length (items_put st') = length (items_put st) + length orders
         \<and> take (length (items_put st)) (items_put st') = items_put st
         \<and> (\<forall>i < length orders. \<exists>kvs submitted item.
                orders ! i = PDict kvs
              \<and> submitted =
                  PDict (AList.update ''created_at'' (PInt (time_int E (clock_reads st + 1 + i)))
                    (AList.update ''ttl'' (PInt (time_int E (clock_reads st) + 86400)) kvs))
              \<and> item = items_put st' ! (length (items_put st) + i)
              \<and> item = convert_floats_to_decimal L submitted
              \<and> \<not> has_float_leaf item
              \<and> subdoc item [Key ''ttl''] = Some (PInt (time_int E (clock_reads st) + 86400))
              \<and> subdoc item [Key ''created_at''] = Some (PInt (time_int E (clock_reads st + 1 + i)))
              \<and> (\<forall>p. case subdoc submitted p of
                         None \<Rightarrow> subdoc item p = None
                       | Some (PFloat x) \<Rightarrow> subdoc item p = Some (PDecimal (float_str L x))
                       | Some (PList xs) \<Rightarrow>
                           (\<exists>ys. subdoc item p = Some (PList ys) \<and> length ys = length xs)
                       | Some (PDict fs) \<Rightarrow>
                           (\<exists>gs. subdoc item p = Some (PDict gs) \<and> map fst gs = map fst fs)
                       | Some leaf \<Rightarrow> subdoc item p = Some leaf))"
proof -
  from post_lambda_handler_201[OF assms] obtain orders where
    src: "map_of event ''body'' = Some (PList orders)
            \<or> (\<exists>s. map_of event ''body'' = Some (PStr s) \<and> json_loads L s = Inr (PList orders))"
    and db: "save_to_db L E orders st = (None, st')"
    by blast
  from put_records_ok[OF save_to_db_ok[OF db]]
  have len: "length (items_put st') = length (items_put st) + length orders"
    and old: "take (length (items_put st)) (items_put st') = items_put st"
    and items: "\<forall>i < length orders. \<exists>kvs. orders ! i = PDict kvs \<and>
              items_put st' ! (length (items_put st) + i) =
                convert_floats_to_decimal L
                  (PDict (AList.update ''created_at'' (PInt (time_int E (clock_reads st + 1 + i)))
                    (AList.update ''ttl'' (PInt (time_int E (clock_reads st) + 86400)) kvs)))"
    by (simp_all add: TTL_SECONDS_def)
  have "\<exists>kvs submitted item.
                orders ! i = PDict kvs
              \<and> submitted =
                  PDict (AList.update ''created_at'' (PInt (time_int E (clock_reads st + 1 + i)))
                    (AList.update ''ttl'' (PInt (time_int E (clock_reads st) + 86400)) kvs))
              \<and> item = items_put st' ! (length (items_put st) + i)
              \<and> item = convert_floats_to_decimal L submitted
              \<and> \<not> has_float_leaf item
              \<and> subdoc item [Key ''ttl''] = Some (PInt (time_int E (clock_reads st) + 86400))
              \<and> subdoc item [Key ''created_at''] = Some (PInt (time_int E (clock_reads st + 1 + i)))
              \<and> (\<forall>p. case subdoc submitted p of
                         None \<Rightarrow> subdoc item p = None
                       | Some (PFloat x) \<Rightarrow> subdoc item p = Some (PDecimal (float_str L x))
                       | Some (PList xs) \<Rightarrow>
                           (\<exists>ys. subdoc item p = Some (PList ys) \<and> length ys = length xs)
                       | Some (PDict fs) \<Rightarrow>
                           (\<exists>gs. subdoc item p = Some (PDict gs) \<and> map fst gs = map fst fs)
                       | Some leaf \<Rightarrow> subdoc item p = Some leaf)"
    if "i < length orders" for i
  proof -
    from items that obtain kvs where k: "orders ! i = PDict kvs"
      and it: "items_put st' ! (length (items_put st) + i) =
                convert_floats_to_decimal L
                  (PDict (AList.update ''created_at'' (PInt (time_int E (clock_reads st + 1 + i)))
                    (AList.update ''ttl'' (PInt (time_int E (clock_reads st) + 86400)) kvs)))"
      by blast
    define submitted where "submitted =
        PDict (AList.update ''created_at'' (PInt (time_int E (clock_reads st + 1 + i)))
          (AList.update ''ttl'' (PInt (time_int E (clock_reads st) + 86400)) kvs))"
    define item where "item = items_put st' ! (length (items_put st) + i)"
    have conv: "item = convert_floats_to_decimal L submitted"
      using it by (simp add: item_def submitted_def)
    have nf: "\<not> has_float_leaf item"
      unfolding conv by (rule convert_floats_to_decimal_no_float)
    have "subdoc submitted [Key ''ttl''] = Some (PInt (time_int E (clock_reads st) + 86400))"
      by (simp add: submitted_def update_conv')
    then have t: "subdoc item [Key ''ttl''] = Some (PInt (time_int E (clock_reads st) + 86400))"
      unfolding conv subdoc_convert by simp
    have "subdoc submitted [Key ''created_at''] = Some (PInt (time_int E (clock_reads st + 1 + i)))"
      by (simp add: submitted_def update_conv')
    then have c: "subdoc item [Key ''created_at''] = Some (PInt (time_int E (clock_reads st + 1 + i)))"
      unfolding conv subdoc_convert by simp
    have leaves: "\<forall>p. case subdoc submitted p of
                         None \<Rightarrow> subdoc item p = None
                       | Some (PFloat x) \<Rightarrow> subdoc item p = Some (PDecimal (float_str L x))
                       | Some (PList xs) \<Rightarrow>
                           (\<exists>ys. subdoc item p = Some (PList ys) \<and> length ys = length xs)
                       | Some (PDict fs) \<Rightarrow>
                           (\<exists>gs. subdoc item p = Some (PDict gs) \<and> map fst gs = map fst fs)
                       | Some leaf \<Rightarrow> subdoc item p = Some leaf"
      unfolding conv using subdoc_convert_cases by blast
    from k conv nf t c leaves show ?thesis
      unfolding submitted_def item_def by blast
  qed
  with src len old show ?thesis by blast
qed

text \<open>
  The request of one order with the price 50.25, sent as text, under a clock that reads
  100 and then 101: the price is stored as \<open>Decimal('50.25')\<close>.
\<close>

lemma sample_text_run:
  "post_lambda_handler sample_lib sample_post_env sample_api_event_text fresh_post_state =
     (Inr (created_response sample_lib 1),
      \<lparr>items_put = [PDict [(''record_id'', PStr ''order-001''), (''price'', PDecimal ''50.25''),
                           (''ttl'', PInt 86500), (''created_at'', PInt 101)]],
       clock_reads = 2\<rparr>)"
  by (simp add: post_lambda_handler_def post_try_def save_to_db_def sample_post_env_def
      fresh_post_state_def TTL_SECONDS_def sample_api_event_text_def sample_lib_def sample_json_loads_def)

theorem post_lambda_items_written_witness:
  "post_lambda_handler sample_lib sample_post_env sample_api_event_text fresh_post_state =
     (Inr (created_response sample_lib 1),
      \<lparr>items_put = [PDict [(''record_id'', PStr ''order-001''), (''price'', PDecimal ''50.25''),
                           (''ttl'', PInt 86500), (''created_at'', PInt 101)]],
       clock_reads = 2\<rparr>)
   \<and> statusCode (created_response sample_lib 1) = 201
   \<and> subdoc (PDict [(''record_id'', PStr ''order-001''), (''price'', PDecimal ''50.25''),
                     (''ttl'', PInt 86500), (''created_at'', PInt 101)]) [Key ''price'']
       = Some (PDecimal (float_str sample_lib 0x4049200000000000))
   \<and> (\<exists>orders.
         (map_of sample_api_event_text ''body'' = Some (PList orders)
          \<or> (\<exists>s. map_of sample_api_event_text ''body'' = Some (PStr s) \<and> json_loads sample_lib s = Inr (PList orders)))
       \<and> length [PDict [(''record_id'', PStr ''order-001''), (''price'', PDecimal ''50.25''),
                           (''ttl'', PInt 86500), (''created_at'', PInt 101)]] = length orders
       \<and> (\<forall>i < length orders. \<exists>kvs submitted item.
                orders ! i = PDict kvs
              \<and> submitted =
                  PDict (AList.update ''created_at'' (PInt (time_int sample_post_env (1 + i)))
                    (AList.update ''ttl'' (PInt (time_int sample_post_env 0 + 86400)) kvs))
              \<and> item = [PDict [(''record_id'', PStr ''order-001''), (''price'', PDecimal ''50.25''),
                           (''ttl'', PInt 86500), (''created_at'', PInt 101)]] ! i
              \<and> item = convert_floats_to_decimal sample_lib submitted
              \<and> \<not> has_float_leaf item
              \<and> subdoc item [Key ''ttl''] = Some (PInt (time_int sample_post_env 0 + 86400))
              \<and> subdoc item [Key ''created_at''] = Some (PInt (time_int sample_post_env (1 + i)))
              \<and> (\<forall>p. case subdoc submitted p of
                         None \<Rightarrow> subdoc item p = None
                       | Some (PFloat x) \<Rightarrow> subdoc item p = Some (PDecimal (float_str sample_lib x))
                       | Some (PList xs) \<Rightarrow>
                           (\<exists>ys. subdoc item p = Some (PList ys) \<and> length ys = length xs)
                       | Some (PDict fs) \<Rightarrow>
                           (\<exists>gs. subdoc item p = Some (PDict gs) \<and> map fst gs = map fst fs)
                       | Some leaf \<Rightarrow> subdoc item p = Some leaf)))"
proof -
  have h2: "statusCode (created_response sample_lib 1) = 201"
    by (simp add: created_response_def)
  have p: "subdoc (PDict [(''record_id'', PStr ''order-001''), (''price'', PDecimal ''50.25''),
                     (''ttl'', PInt 86500), (''created_at'', PInt 101)]) [Key ''price'']
       = Some (PDecimal (float_str sample_lib 0x4049200000000000))"
    by (simp add: sample_lib_def)
  have c: "\<exists>orders.
         (map_of sample_api_event_text ''body'' = Some (PList orders)
          \<or> (\<exists>s. map_of sample_api_event_text ''body'' = Some (PStr s) \<and> json_loads sample_lib s = Inr (PList orders)))
       \<and> length [PDict [(''record_id'', PStr ''order-001''), (''price'', PDecimal ''50.25''),
                           (''ttl'', PInt 86500), (''created_at'', PInt 101)]] = length orders
       \<and> (\<forall>i < length orders. \<exists>kvs submitted item.
                orders ! i = PDict kvs
              \<and> submitted =
                  PDict (AList.update ''created_at'' (PInt (time_int sample_post_env (1 + i)))
                    (AList.update ''ttl'' (PInt (time_int sample_post_env 0 + 86400)) kvs))
              \<and> item = [PDict [(''record_id'', PStr ''order-001''), (''price'', PDecimal ''50.25''),
                           (''ttl'', PInt 86500), (''created_at'', PInt 101)]] ! i
              \<and> item = convert_floats_to_decimal sample_lib submitted
              \<and> \<not> has_float_leaf item
              \<and> subdoc item [Key ''ttl''] = Some (PInt (time_int sample_post_env 0 + 86400))
              \<and> subdoc item [Key ''created_at''] = Some (PInt (time_int sample_post_env (1 + i)))
              \<and> (\<forall>p. case subdoc submitted p of
                         None \<Rightarrow> subdoc item p = None
                       | Some (PFloat x) \<Rightarrow> subdoc item p = Some (PDecimal (float_str sample_lib x))
                       | Some (PList xs) \<Rightarrow>
                           (\<exists>ys. subdoc item p = Some (PList ys) \<and> length ys = length xs)
                       | Some (PDict fs) \<Rightarrow>
                           (\<exists>gs. subdoc item p = Some (PDict gs) \<and> map fst gs = map fst fs)
                       | Some leaf \<Rightarrow> subdoc item p = Some leaf))"
    using post_lambda_items_written[OF sample_text_run h2]
    by (simp add: fresh_post_state_def)
  from sample_text_run h2 p c show ?thesis by blast
qed

text \<open>
  C4 as stated fails: the clock moved from 100 to 101 between the reading for the TTL
  and the reading for \<open>created_at\<close>, so the item has \<open>ttl = 86500\<close> and
  \<open>created_at = 101\<close>, and no single write time gives both.
\<close>

theorem post_lambda_ttl_created_at_counterexample:
  "post_lambda_handler sample_lib sample_post_env
     [(''httpMethod'', PStr ''POST''), (''path'', PStr ''/orders''),
      (''body'', PList [PDict [(''record_id'', PStr ''order-001'')]])]
     fresh_post_state
   = (Inr (created_response sample_lib 1),
      \<lparr>items_put = [PDict [(''record_id'', PStr ''order-001''), (''ttl'', PInt 86500), (''created_at'', PInt 101)]],
       clock_reads = 2\<rparr>)
   \<and> (86500 :: int) \<noteq> 101 + 86400"
  by (simp add: post_lambda_handler_def post_try_def save_to_db_def sample_post_env_def
      fresh_post_state_def TTL_SECONDS_def)

subsection \<open>The archiver\<close>

text \<open>
  C2. For an order document whose \<open>status\<close> is \<open>rejected\<close> the archiver raises and the
  list of \<open>put_object\<close> calls is the one it started with: the store is never called and no
  success document is returned. For a document that \<open>json.dumps\<close> can write (every document
  the platform delivers), the exception is the domain error
  \<open>ValueError('Order status is rejected!')\<close>.
\<close>

theorem lambda_b_rejected_never_stored:
  assumes "event = PDict kvs" and "map_of kvs ''status'' = Some (PStr ''rejected'')"
  shows "(\<exists>e. lambda_b_handler L E event puts = (Inl e, puts))
       \<and> (json_serializable event \<longrightarrow>
            lambda_b_handler L E event puts = (Inl (ValueError ''Order status is rejected!''), puts))"
  using assms by (auto simp: lambda_b_handler_def json_dumps_def)

text \<open>The rejected order of the test fixtures.\<close>

theorem lambda_b_rejected_never_stored_witness:
  "lambda_b_handler sample_lib sample_lambda_b_env
     (PDict [(''status'', PStr ''rejected''), (''power'', PInt 200), (''price'', PFloat 0x4049200000000000)]) []
   = (Inl (ValueError ''Order status is rejected!''), [])"
  using lambda_b_rejected_never_stored
    [of "PDict [(''status'', PStr ''rejected''), (''power'', PInt 200), (''price'', PFloat 0x4049200000000000)]"
        "[(''status'', PStr ''rejected''), (''power'', PInt 200), (''price'', PFloat 0x4049200000000000)]"
        sample_lib sample_lambda_b_env "[]"]
  by simp

subsection \<open>The authorizer\<close>

lemma authorizer_handler_raises:
  assumes "authorizer_try E event st = (Inl e, st')"
  shows "fst (authorizer_lambda_handler L E event st) = Inl (Exception ''Unauthorized'')"
  using assms by (cases e) (simp_all add: authorizer_lambda_handler_def)

lemma authorizer_try_no_token:
  assumes "dict_get event ''authorizationToken'' [] = []"
  shows "authorizer_try E event st = (Inl (ValueError ''No authorization token provided''), st)"
  using assms by (simp add: authorizer_try_def)

lemma authorizer_try_not_valid:
  assumes "dict_get event ''authorizationToken'' [] \<noteq> []"
    and "validate_token E (bearer_token (dict_get event ''authorizationToken'' [])) st = (Inl e, st')"
  shows "authorizer_try E event st = (Inl e, st')"
  using assms by (simp add: authorizer_try_def)

lemma bearer_token_old: "bearer_token ''Bearer old'' = ''old''"
  by code_simp

lemma bearer_token_good: "bearer_token ''Bearer good'' = ''good''"
  by code_simp

lemma validate_expired_sample:
  "validate_token sample_auth_env ''old'' fresh_auth_state =
     (Inl (ExpiredSignatureError ''Signature has expired''),
      \<lparr>cached_secret = Some ''test-secret-key'', printed = []\<rparr>)"
  by (simp add: validate_token_def get_secret_key_def sample_auth_env_def fresh_auth_state_def)

lemma validate_good_sample:
  "validate_token sample_auth_env ''good'' fresh_auth_state =
     (Inr [(''sub'', PStr ''user123''), (''email'', PStr ''test@example.com'')],
      \<lparr>cached_secret = Some ''test-secret-key'', printed = []\<rparr>)"
  by (simp add: validate_token_def get_secret_key_def sample_auth_env_def fresh_auth_state_def)

text \<open>
  C1. Whenever verification does not succeed, the handler raises
  \<open>Exception('Unauthorized')\<close> and nothing else: when the token is missing or empty, when
  \<open>validate_token\<close> raises (an expired signature, an invalid or malformed token, a secret
  that cannot be resolved), and when any other exception leaves the \<open>try\<close> block. The
  raised value does not depend on the cause.
\<close>

theorem authorizer_failure_unauthorized:
  assumes "dict_get event ''authorizationToken'' [] = []
         \<or> (\<exists>e. fst (validate_token E (bearer_token (dict_get event ''authorizationToken'' [])) st) = Inl e)
         \<or> (\<exists>e. fst (authorizer_try E event st) = Inl e)"
  shows "fst (authorizer_lambda_handler L E event st) = Inl (Exception ''Unauthorized'')"
proof -
  have "\<exists>e st'. authorizer_try E event st = (Inl e, st')"
  proof (cases "dict_get event ''authorizationToken'' [] = []")
    case True
    then show ?thesis using authorizer_try_no_token by blast
  next
    case False
    with assms consider
        (v) e where "fst (validate_token E (bearer_token (dict_get event ''authorizationToken'' [])) st) = Inl e"
      | (t) e where "fst (authorizer_try E event st) = Inl e"
      by blast
    then show ?thesis
    proof cases
      case v
      then obtain st' where
        "validate_token E (bearer_token (dict_get event ''authorizationToken'' [])) st = (Inl e, st')"
        by (metis prod.collapse)
      from authorizer_try_not_valid[OF False this] show ?thesis by blast
    next
      case t
      then show ?thesis by (metis prod.collapse)
    qed
  qed
  then show ?thesis using authorizer_handler_raises by blast
qed

text \<open>An expired token, as in the tests.\<close>

theorem authorizer_failure_unauthorized_witness:
  "fst (validate_token sample_auth_env
          (bearer_token (dict_get expired_token_event ''authorizationToken'' [])) fresh_auth_state)
     = Inl (ExpiredSignatureError ''Signature has expired'')
   \<and> fst (authorizer_lambda_handler sample_lib sample_auth_env expired_token_event fresh_auth_state)
     = Inl (Exception ''Unauthorized'')"
proof -
  have h: "fst (validate_token sample_auth_env
                  (bearer_token (dict_get expired_token_event ''authorizationToken'' [])) fresh_auth_state)
     = Inl (ExpiredSignatureError ''Signature has expired'')"
    by (simp add: dict_get_def expired_token_event_def bearer_token_old validate_expired_sample)
  then show ?thesis
    using authorizer_failure_unauthorized[of expired_token_event sample_auth_env fresh_auth_state sample_lib]
    by blast
qed

text \<open>
  C5. When the token is not empty and \<open>validate_token\<close> returns the claims, the handler
  returns the policy with effect \<open>Allow\<close> on the method ARN of the event; the principal is
  the claims' \<open>sub\<close> if that key is there, else their \<open>email\<close> if that key is there, else
  \<open>user\<close>; the context holds the principal as \<open>userId\<close> and the claims' \<open>email\<close>, or the
  empty string.
\<close>

theorem authorizer_allow_policy:
  assumes "dict_get event ''authorizationToken'' [] \<noteq> []"
    and "validate_token E (bearer_token (dict_get event ''authorizationToken'' [])) st = (Inr claims, st')"
  shows "authorizer_lambda_handler L E event st =
     (Inr (PDict
        [(''principalId'', dict_get claims ''sub'' (dict_get claims ''email'' (PStr ''user''))),
         (''policyDocument'',
            PDict [(''Version'', PStr ''2012-10-17''),
                   (''Statement'',
                      PList [PDict [(''Action'', PStr ''execute-api:Invoke''),
                                    (''Effect'', PStr ''Allow''),
                                    (''Resource'', PStr (dict_get event ''methodArn'' ''*''))]])]),
         (''context'',
            PDict [(''userId'', dict_get claims ''sub'' (dict_get claims ''email'' (PStr ''user''))),
                   (''email'', dict_get claims ''email'' (PStr []))])]), st')
   \<and> dict_get claims ''sub'' (dict_get claims ''email'' (PStr ''user'')) =
       (case map_of claims ''sub'' of
          Some sub \<Rightarrow> sub
        | None \<Rightarrow> (case map_of claims ''email'' of Some email \<Rightarrow> email | None \<Rightarrow> PStr ''user''))"
proof -
  have "authorizer_try E event st =
     (Inr (generate_policy (dict_get claims ''sub'' (dict_get claims ''email'' (PStr ''user''))) ''Allow''
             (dict_get event ''methodArn'' ''*'')
             (Some [(''userId'', dict_get claims ''sub'' (dict_get claims ''email'' (PStr ''user''))),
                    (''email'', dict_get claims ''email'' (PStr []))])), st')"
    using assms by (simp add: authorizer_try_def Let_def)
  then have "authorizer_lambda_handler L E event st =
     (Inr (generate_policy (dict_get claims ''sub'' (dict_get claims ''email'' (PStr ''user''))) ''Allow''
             (dict_get event ''methodArn'' ''*'')
             (Some [(''userId'', dict_get claims ''sub'' (dict_get claims ''email'' (PStr ''user''))),
                    (''email'', dict_get claims ''email'' (PStr []))])), st')"
    by (simp add: authorizer_lambda_handler_def)
  moreover have "dict_get claims ''sub'' (dict_get claims ''email'' (PStr ''user'')) =
       (case map_of claims ''sub'' of
          Some sub \<Rightarrow> sub
        | None \<Rightarrow> (case map_of claims ''email'' of Some email \<Rightarrow> email | None \<Rightarrow> PStr ''user''))"
    by (simp add: dict_get_def split: option.splits)
  ultimately show ?thesis
    by (simp add: generate_policy_def)
qed

text \<open>The valid token of the tests, with the claims \<open>sub\<close> and \<open>email\<close>.\<close>

theorem authorizer_allow_policy_witness:
  "authorizer_lambda_handler sample_lib sample_auth_env sample_token_event fresh_auth_state =
     (Inr (PDict
        [(''principalId'', PStr ''user123''),
         (''policyDocument'',
            PDict [(''Version'', PStr ''2012-10-17''),
                   (''Statement'',
                      PList [PDict [(''Action'', PStr ''execute-api:Invoke''),
                                    (''Effect'', PStr ''Allow''),
                                    (''Resource'', PStr ''arn:aws:execute-api:eu-west-1:123456789:api/dev/POST/orders'')]])]),
         (''context'',
            PDict [(''userId'', PStr ''user123''), (''email'', PStr ''test@example.com'')])]),
      \<lparr>cached_secret = Some ''test-secret-key'', printed = []\<rparr>)"
proof -
  have t: "dict_get sample_token_event ''authorizationToken'' [] = ''Bearer good''"
    by (simp add: dict_get_def sample_token_event_def)
  have h1: "dict_get sample_token_event ''authorizationToken'' [] \<noteq> []"
    by (simp add: t)
  have h2: "validate_token sample_auth_env
              (bearer_token (dict_get sample_token_event ''authorizationToken'' [])) fresh_auth_state =
     (Inr [(''sub'', PStr ''user123''), (''email'', PStr ''test@example.com'')],
      \<lparr>cached_secret = Some ''test-secret-key'', printed = []\<rparr>)"
    by (simp add: t bearer_token_good validate_good_sample)
  show ?thesis
    using authorizer_allow_policy[OF h1 h2, of sample_lib]
    by (simp add: dict_get_def sample_token_event_def)
qed

text \<open>
  C6, as amended. When no secret is cached and \<open>JWT_SECRET_NAME\<close> is unset or empty,
  \<open>get_secret_key\<close> raises the configuration error
  \<open>ValueError('JWT_SECRET_NAME environment variable not set')\<close>; for an event with a token
  the handler catches it, prints the line \<open>Authorization error: ...\<close> with the cause, and
  raises the opaque \<open>Exception('Unauthorized')\<close>.
\<close>

theorem authorizer_missing_secret_name:
  assumes "dict_get event ''authorizationToken'' [] \<noteq> []"
    and "cached_secret st = None"
    and "JWT_SECRET_NAME E = None \<or> JWT_SECRET_NAME E = Some []"
  shows "get_secret_key E st = (Inl (ValueError ''JWT_SECRET_NAME environment variable not set''), st)
       \<and> authorizer_lambda_handler L E event st =
           (Inl (Exception ''Unauthorized''),
            st\<lparr>printed := printed st @
              [''Authorization error: '' @ str_exn L (ValueError ''JWT_SECRET_NAME environment variable not set'')]\<rparr>)"
proof -
  have k: "get_secret_key E st = (Inl (ValueError ''JWT_SECRET_NAME environment variable not set''), st)"
    using assms(2,3) by (auto simp: get_secret_key_def)
  then have "validate_token E (bearer_token (dict_get event ''authorizationToken'' [])) st =
      (Inl (ValueError ''JWT_SECRET_NAME environment variable not set''), st)"
    by (simp add: validate_token_def)
  from authorizer_try_not_valid[OF assms(1) this]
  have "authorizer_lambda_handler L E event st =
           (Inl (Exception ''Unauthorized''),
            st\<lparr>printed := printed st @
              [''Authorization error: '' @ str_exn L (ValueError ''JWT_SECRET_NAME environment variable not set'')]\<rparr>)"
    by (simp add: authorizer_lambda_handler_def)
  with k show ?thesis by simp
qed

theorem authorizer_missing_secret_name_witness:
  "get_secret_key unconfigured_auth_env fresh_auth_state =
     (Inl (ValueError ''JWT_SECRET_NAME environment variable not set''), fresh_auth_state)
   \<and> authorizer_lambda_handler sample_lib unconfigured_auth_env sample_token_event fresh_auth_state =
       (Inl (Exception ''Unauthorized''),
        fresh_auth_state\<lparr>printed := printed fresh_auth_state @
          [''Authorization error: '' @ str_exn sample_lib (ValueError ''JWT_SECRET_NAME environment variable not set'')]\<rparr>)"
proof -
  have h1: "dict_get sample_token_event ''authorizationToken'' [] \<noteq> []"
    by (simp add: dict_get_def sample_token_event_def)
  have h2: "cached_secret fresh_auth_state = None"
    by (simp add: fresh_auth_state_def)
  have h3: "JWT_SECRET_NAME unconfigured_auth_env = None \<or> JWT_SECRET_NAME unconfigured_auth_env = Some []"
    by (simp add: unconfigured_auth_env_def)
  show ?thesis
    by (rule authorizer_missing_secret_name[OF h1 h2 h3])
qed

text \<open>
  C6 as stated fails: with no \<open>JWT_SECRET_NAME\<close> the secret cannot be resolved, and the
  handler's outcome is \<open>Exception('Unauthorized')\<close>, the very outcome of an expired token.
\<close>

theorem authorizer_missing_secret_name_counterexample:
  "fst (get_secret_key unconfigured_auth_env fresh_auth_state) =
     Inl (ValueError ''JWT_SECRET_NAME environment variable not set'')
   \<and> fst (authorizer_lambda_handler sample_lib unconfigured_auth_env sample_token_event fresh_auth_state) =
       Inl (Exception ''Unauthorized'')
   \<and> fst (authorizer_lambda_handler sample_lib sample_auth_env expired_token_event fresh_auth_state) =
       Inl (Exception ''Unauthorized'')"
  by (simp add: authorizer_lambda_handler_def authorizer_try_def validate_token_def get_secret_key_def
      unconfigured_auth_env_def sample_auth_env_def fresh_auth_state_def sample_token_event_def
      expired_token_event_def dict_get_def bearer_token_old bearer_token_good)

subsection \<open>The generator\<close>

text \<open>
  C8. The output of the generator is a function of the one draw, whatever the event: on
  \<open>True\<close> the document with \<open>results\<close> true and the two fixed orders, on \<open>False\<close> the
  document with \<open>results\<close> false, which has no key \<open>orders\<close>.
\<close>

theorem lambda_a_handler_output:
  "lambda_a_handler True event =
     PDict [(''results'', PBool True),
            (''orders'',
               PList [PDict [(''status'', PStr ''accepted''), (''power'', PInt 1)],
                      PDict [(''status'', PStr ''rejected''), (''power'', PInt 2)]])]
   \<and> lambda_a_handler False event = PDict [(''results'', PBool False)]
   \<and> py_in ''orders'' (lambda_a_handler False event) = Inr False"
  by (simp add: lambda_a_handler_def)

end
